theory Spec2Isabelle
  imports Main "HOL-Library.AList"
begin

section \<open>The Salesforce-to-S3 operator (plugins/salesforce_operator.py)\<close>

text \<open>
  The operator signs in to Salesforce through a hook, resolves the list of fields,
  fetches the records either of a named object or of a custom query, has the hook write
  them to a temporary file, and uploads that file to S3 through a second hook.

  The two hooks, the temporary-file service and the S3 connection are not code of this
  file: they are parameters of the model (the record \<open>hooks\<close>). Every call to them may
  raise, and its answer may depend on all the calls made before it, so each one receives
  the trace of the execution so far. What the operator does is read off the final world:
  the operator's own attributes, the trace of calls, and the state of the temporary file.
\<close>

subsection \<open>Python values\<close>

text \<open>
  The values a query result is made of: a dictionary with string keys keeps its
  insertion order, so it is an association list. Floating-point scalars are left out.
\<close>

datatype pyval =
    PNone
  | PBool bool
  | PInt int
  | PStr string
  | PList "pyval list"
  | PDict "(string \<times> pyval) list"

datatype exn =
    QueryIsNone  \<comment> \<open>\<open>ValueError("Query is None.  Cannot query nothing")\<close>, line 90\<close>
  | KeyError string
  | TypeError
  | AttributeError
  | External string  \<comment> \<open>whatever a hook, the temporary-file service or S3 raised\<close>

text \<open>Python's truth value of an object, as \<open>if x:\<close> and \<open>not x\<close> test it.\<close>

fun truthy :: "pyval \<Rightarrow> bool" where
  "truthy PNone = False"
| "truthy (PBool b) = b"
| "truthy (PInt i) = (i \<noteq> 0)"
| "truthy (PStr s) = (s \<noteq> [])"
| "truthy (PList xs) = (xs \<noteq> [])"
| "truthy (PDict kvs) = (kvs \<noteq> [])"

text \<open>The attributes that are \<open>None\<close> or a string, and \<open>None\<close> or a list of strings.\<close>

fun truthy_str :: "string option \<Rightarrow> bool" where
  "truthy_str None = False"
| "truthy_str (Some s) = (s \<noteq> [])"

fun truthy_fields :: "string list option \<Rightarrow> bool" where
  "truthy_fields None = False"
| "truthy_fields (Some fs) = (fs \<noteq> [])"

text \<open>\<open>x[k]\<close> for a string key: only a dictionary has one.\<close>

fun py_getitem :: "pyval \<Rightarrow> string \<Rightarrow> exn + pyval" where
  "py_getitem (PDict kvs) k =
     (case map_of kvs k of None \<Rightarrow> Inl (KeyError k) | Some v \<Rightarrow> Inr v)"
| "py_getitem _ k = Inl TypeError"

text \<open>\<open>x.get(k, None)\<close>: only a dictionary has the method.\<close>

fun py_get :: "pyval \<Rightarrow> string \<Rightarrow> exn + pyval" where
  "py_get (PDict kvs) k = (case map_of kvs k of None \<Rightarrow> Inr PNone | Some v \<Rightarrow> Inr v)"
| "py_get _ k = Inl AttributeError"

text \<open>\<open>x[k] = v\<close> for a string key: an existing key keeps its place.\<close>

fun py_setitem :: "pyval \<Rightarrow> string \<Rightarrow> pyval \<Rightarrow> exn + pyval" where
  "py_setitem (PDict kvs) k v = Inr (PDict (AList.update k v kvs))"
| "py_setitem _ k v = Inl TypeError"

text \<open>
  What \<open>for r in x\<close> and \<open>list.extend(x)\<close> run over: the elements of a list, the keys of
  a dictionary, the characters of a string; anything else is not iterable.
\<close>

fun py_iter :: "pyval \<Rightarrow> exn + pyval list" where
  "py_iter (PList xs) = Inr xs"
| "py_iter (PDict kvs) = Inr (map (\<lambda>kv. PStr (fst kv)) kvs)"
| "py_iter (PStr s) = Inr (map (\<lambda>c. PStr [c]) s)"
| "py_iter _ = Inl TypeError"

definition seq :: "exn + 'a \<Rightarrow> ('a \<Rightarrow> exn + 'b) \<Rightarrow> exn + 'b" where
  "seq m f = (case m of Inl e \<Rightarrow> Inl e | Inr x \<Rightarrow> f x)"

subsection \<open>The operator, the trace and the world\<close>

text \<open>The attributes \<open>__init__\<close> stores (lines 76 to 86).\<close>

record operator =
  sf_conn_id :: string
  "output" :: string
  s3_conn_id :: string
  s3_bucket :: string
  object :: string
  fields' :: "string list option"
  fmt :: string
  query :: "string option"
  relationship_object :: "string option"
  record_time_added :: bool
  coerce_to_timestamp :: bool

text \<open>One event for each call that leaves the operator, with its arguments.\<close>

datatype event =
    TmpCreate string
  | NewSalesforceHook string string
  | SignIn
  | GetAvailableFields string
  | MakeQuery string
  | GetObject string "string list option"
  | WriteObjectToFile pyval string string bool bool
  | TmpFlush
  | NewS3Hook string
  | LoadFile string string string bool
  | S3ConnectionClose
  | TmpUnlink string

text \<open>
  The collaborators. Each takes the trace so far and the arguments of the call; \<open>Inl\<close>
  (or \<open>Some\<close>, for a call that returns nothing) carries what it raised.
  \<open>named_temporary_file\<close> is \<open>NamedTemporaryFile("w")\<close>: it raises or returns the name of
  the file it created. \<open>new_salesforce_hook\<close> and \<open>new_s3_hook\<close> are the constructors of
  the two hooks, \<open>s3_connection_close\<close> is \<open>dest_s3.connection.close()\<close>.
\<close>

record hooks =
  named_temporary_file :: "string + string"
  new_salesforce_hook :: "event list \<Rightarrow> string \<Rightarrow> string \<Rightarrow> string option"
  sign_in :: "event list \<Rightarrow> string option"
  get_available_fields :: "event list \<Rightarrow> string \<Rightarrow> string + string list"
  make_query :: "event list \<Rightarrow> string \<Rightarrow> string + pyval"
  get_object_from_salesforce ::
    "event list \<Rightarrow> string \<Rightarrow> string list option \<Rightarrow> string + pyval"
  write_object_to_file ::
    "event list \<Rightarrow> pyval \<Rightarrow> string \<Rightarrow> string \<Rightarrow> bool \<Rightarrow> bool \<Rightarrow> string option"
  new_s3_hook :: "event list \<Rightarrow> string \<Rightarrow> string option"
  load_file :: "event list \<Rightarrow> string \<Rightarrow> string \<Rightarrow> string \<Rightarrow> bool \<Rightarrow> string option"
  s3_connection_close :: "event list \<Rightarrow> string option"

record world =
  self :: operator
  trace :: "event list"
  tmp_exists :: bool
  tmp_closed :: bool

type_synonym 'a step = "world \<Rightarrow> (exn + 'a) \<times> world"

definition and_then :: "'a step \<Rightarrow> ('a \<Rightarrow> 'b step) \<Rightarrow> 'b step" where
  "and_then m f w = (case m w of (Inl e, w') \<Rightarrow> (Inl e, w') | (Inr x, w') \<Rightarrow> f x w')"

definition log_event :: "event \<Rightarrow> world \<Rightarrow> world" where
  "log_event e w = w\<lparr>trace := trace w @ [e]\<rparr>"

text \<open>A call that returns nothing, and a call that returns a value.\<close>

definition call_unit :: "event \<Rightarrow> (event list \<Rightarrow> string option) \<Rightarrow> unit step" where
  "call_unit e f w =
     (case f (trace w) of
        Some msg \<Rightarrow> (Inl (External msg), log_event e w)
      | None \<Rightarrow> (Inr (), log_event e w))"

definition call_value :: "event \<Rightarrow> (event list \<Rightarrow> string + 'a) \<Rightarrow> 'a step" where
  "call_value e f w =
     (case f (trace w) of
        Inl msg \<Rightarrow> (Inl (External msg), log_event e w)
      | Inr v \<Rightarrow> (Inr v, log_event e w))"

definition lift :: "exn + 'a \<Rightarrow> 'a step" where
  "lift r w = (r, w)"

subsection \<open>\<open>special_query\<close> (lines 88 to 102)\<close>

text \<open>The loop of lines 97 to 99, with \<open>records\<close> as the accumulator.\<close>

fun collect :: "string \<Rightarrow> pyval list \<Rightarrow> pyval list \<Rightarrow> exn + pyval list" where
  "collect rel [] records = Inr records"
| "collect rel (r # rs) records =
     seq (py_get r rel) (\<lambda>v.
       if truthy v then
         seq (py_getitem r rel) (\<lambda>nested.
         seq (py_getitem nested ''records'') (\<lambda>inner.
         seq (py_iter inner) (\<lambda>more.
         collect rel rs (records @ more))))
       else collect rel rs records)"

text \<open>Lines 95 to 100.\<close>

definition flatten :: "string option \<Rightarrow> pyval \<Rightarrow> exn + pyval" where
  "flatten rel_obj results =
     (case rel_obj of
        None \<Rightarrow> Inr results
      | Some rel \<Rightarrow>
          if rel = [] then Inr results
          else
            seq (py_getitem results ''records'') (\<lambda>top.
            seq (py_iter top) (\<lambda>rs.
            seq (collect rel rs []) (\<lambda>records.
            py_setitem results ''records'' (PList records)))))"

fun special_query :: "hooks \<Rightarrow> string option \<Rightarrow> string option \<Rightarrow> pyval step" where
  "special_query h None rel_obj = lift (Inl QueryIsNone)"
| "special_query h (Some q) rel_obj =
     (if q = [] then lift (Inl QueryIsNone)
      else
        and_then (call_unit SignIn (sign_in h)) (\<lambda>_.
        and_then (call_value (MakeQuery q) (\<lambda>t. make_query h t q)) (\<lambda>results.
        lift (flatten rel_obj results))))"

subsection \<open>\<open>execute\<close> (lines 104 to 172)\<close>

text \<open>Lines 132 and 133: the one place where the operator writes an attribute of its own.\<close>

definition resolve_fields :: "hooks \<Rightarrow> unit step" where
  "resolve_fields h w =
     (if \<not> truthy_fields (fields' (self w)) then
        and_then
          (call_value (GetAvailableFields (object (self w)))
             (\<lambda>t. get_available_fields h t (object (self w))))
          (\<lambda>fs w'. (Inr (), w'\<lparr>self := (self w')\<lparr>fields' := Some fs\<rparr>\<rparr>)) w
      else (Inr (), w))"

text \<open>Line 137: \<open>len(self.fields)\<close> inside the log message.\<close>

definition log_request :: "unit step" where
  "log_request w = (case fields' (self w) of None \<Rightarrow> (Inl TypeError, w) | Some fs \<Rightarrow> (Inr (), w))"

text \<open>Lines 140 to 147.\<close>

definition fetch :: "hooks \<Rightarrow> pyval step" where
  "fetch h w =
     (if truthy_str (query (self w)) then
        special_query h (query (self w)) (relationship_object (self w)) w
      else
        call_value (GetObject (object (self w)) (fields' (self w)))
          (\<lambda>t. get_object_from_salesforce h t (object (self w)) (fields' (self w))) w)"

text \<open>Lines 152 to 158; the subscript \<open>query['records']\<close> is evaluated first.\<close>

definition write_records :: "hooks \<Rightarrow> string \<Rightarrow> pyval \<Rightarrow> unit step" where
  "write_records h name result w =
     and_then (lift (py_getitem result ''records'')) (\<lambda>records w'.
       call_unit
         (WriteObjectToFile records name (fmt (self w'))
            (coerce_to_timestamp (self w')) (record_time_added (self w')))
         (\<lambda>t. write_object_to_file h t records name (fmt (self w'))
            (coerce_to_timestamp (self w')) (record_time_added (self w'))) w') w"

text \<open>
  Closing the temporary file removes it, once: \<open>tmp.close()\<close> of line 171 and the
  \<open>__exit__\<close> of the \<open>with\<close> block both come here. The file belongs to the operator:
  no collaborator removes it, and flushing and closing it do not raise.
\<close>

definition tmp_close :: "string \<Rightarrow> world \<Rightarrow> world" where
  "tmp_close name w =
     (if tmp_closed w then w
      else (log_event (TmpUnlink name) w)\<lparr>tmp_exists := False, tmp_closed := True\<rparr>)"

definition tmp_flush :: "unit step" where
  "tmp_flush w = (Inr (), log_event TmpFlush w)"

text \<open>Lines 162 to 171.\<close>

definition upload :: "hooks \<Rightarrow> string \<Rightarrow> unit step" where
  "upload h name w =
     and_then tmp_flush (\<lambda>_.
     and_then (call_unit (NewS3Hook (s3_conn_id (self w)))
                 (\<lambda>t. new_s3_hook h t (s3_conn_id (self w)))) (\<lambda>_.
     and_then (call_unit (LoadFile name (output (self w)) (s3_bucket (self w)) True)
                 (\<lambda>t. load_file h t name (output (self w)) (s3_bucket (self w)) True)) (\<lambda>_.
     and_then (call_unit S3ConnectionClose (s3_connection_close h)) (\<lambda>_ w'.
     (Inr (), tmp_close name w'))))) w"

text \<open>The body of the \<open>with\<close> block, lines 119 to 171.\<close>

definition execute_body :: "hooks \<Rightarrow> string \<Rightarrow> unit step" where
  "execute_body h name w =
     and_then (call_unit (NewSalesforceHook (sf_conn_id (self w)) name)
                 (\<lambda>t. new_salesforce_hook h t (sf_conn_id (self w)) name)) (\<lambda>_.
     and_then (call_unit SignIn (sign_in h)) (\<lambda>_.
     and_then (resolve_fields h) (\<lambda>_.
     and_then log_request (\<lambda>_.
     and_then (fetch h) (\<lambda>result.
     and_then (write_records h name result) (\<lambda>_.
     upload h name)))))) w"

text \<open>
  \<open>execute\<close>: the \<open>with NamedTemporaryFile("w") as tmp\<close> block creates the file, runs the
  body, and closes the file however the body ends.
\<close>

definition execute :: "hooks \<Rightarrow> operator \<Rightarrow> (exn + unit) \<times> world" where
  "execute h op =
     (case named_temporary_file h of
        Inl msg \<Rightarrow>
          (Inl (External msg),
           \<lparr>self = op, trace = [], tmp_exists = False, tmp_closed = False\<rparr>)
      | Inr name \<Rightarrow>
          (case execute_body h name
                  \<lparr>self = op, trace = [TmpCreate name], tmp_exists = True, tmp_closed = False\<rparr> of
             (r, w) \<Rightarrow> (r, tmp_close name w)))"

subsection \<open>The states an execution passes through\<close>

text \<open>
  While the \<open>with\<close> block runs, the temporary file exists and is open; once it is
  closed, the file is gone and the unlink is the last event.
\<close>

definition final :: "operator \<Rightarrow> string \<Rightarrow> event list \<Rightarrow> world" where
  "final op name evs = \<lparr>self = op, trace = evs @ [TmpUnlink name], tmp_exists = False, tmp_closed = True\<rparr>"

definition live :: "operator \<Rightarrow> event list \<Rightarrow> world" where
  "live op evs = \<lparr>self = op, trace = evs, tmp_exists = True, tmp_closed = False\<rparr>"

definition wrote :: "operator \<Rightarrow> string \<Rightarrow> pyval \<Rightarrow> event" where
  "wrote op name recs =
     WriteObjectToFile recs name (fmt op) (coerce_to_timestamp op) (record_time_added op)"

definition loaded :: "operator \<Rightarrow> string \<Rightarrow> event" where
  "loaded op name = LoadFile name (output op) (s3_bucket op) True"

text \<open>
  \<open>resolved\<close>: the temporary file was created, the hook was built, the first sign-in
  returned and lines 132 and 133 are done, leaving \<open>fl\<close> in \<open>self.fields\<close> and \<open>t\<close>
  as the trace. \<open>fetched\<close>: from there, lines 140 to 147 returned \<open>res\<close>, with trace
  \<open>t'\<close>.
\<close>

definition resolved ::
  "hooks \<Rightarrow> operator \<Rightarrow> string \<Rightarrow> string list option \<Rightarrow> event list \<Rightarrow> bool" where
  "resolved h op name fl t \<longleftrightarrow>
     named_temporary_file h = Inr name \<and>
     new_salesforce_hook h [TmpCreate name] (sf_conn_id op) name = None \<and>
     sign_in h [TmpCreate name, NewSalesforceHook (sf_conn_id op) name] = None \<and>
     (if truthy_fields (fields' op) then
        fl = fields' op \<and>
        t = [TmpCreate name, NewSalesforceHook (sf_conn_id op) name, SignIn]
      else
        (case get_available_fields h
                [TmpCreate name, NewSalesforceHook (sf_conn_id op) name, SignIn] (object op) of
           Inl msg \<Rightarrow> False
         | Inr fs \<Rightarrow>
             fl = Some fs \<and>
             t = [TmpCreate name, NewSalesforceHook (sf_conn_id op) name, SignIn,
                  GetAvailableFields (object op)]))"

definition fetched ::
  "hooks \<Rightarrow> operator \<Rightarrow> string list option \<Rightarrow> event list \<Rightarrow> pyval \<Rightarrow> event list \<Rightarrow> bool" where
  "fetched h op fl t res t' \<longleftrightarrow>
     (if truthy_str (query op) then
        sign_in h t = None \<and>
        (case make_query h (t @ [SignIn]) (the (query op)) of
           Inl msg \<Rightarrow> False
         | Inr raw \<Rightarrow> flatten (relationship_object op) raw = Inr res) \<and>
        t' = t @ [SignIn, MakeQuery (the (query op))]
      else
        get_object_from_salesforce h t (object op) fl = Inr res \<and>
        t' = t @ [GetObject (object op) fl])"

text \<open>The uploads among the events.\<close>

fun is_load_file :: "event \<Rightarrow> bool" where
  "is_load_file (LoadFile name key bucket replace) = True"
| "is_load_file _ = False"

subsection \<open>Example runs\<close>

definition op_account :: operator where
  "op_account =
     \<lparr>sf_conn_id = ''salesforce'', output = ''output.csv'', s3_conn_id = ''s3'',
      s3_bucket = ''bucket'', object = ''Account'', fields' = None, fmt = ''csv'',
      query = None, relationship_object = None, record_time_added = False,
      coerce_to_timestamp = False\<rparr>"

definition op_contacts :: operator where
  "op_contacts =
     op_account\<lparr>fields' := Some [''Id''],
       query := Some ''SELECT Id, (SELECT Id FROM Contacts) FROM Account'',
       relationship_object := Some ''Contacts''\<rparr>"

definition contact_a :: pyval where
  "contact_a = PDict [(''Id'', PStr ''A'')]"

definition contact_b :: pyval where
  "contact_b = PDict [(''Id'', PStr ''B'')]"

definition nested_result :: "pyval \<Rightarrow> pyval \<Rightarrow> pyval" where
  "nested_result a b =
     PDict [(''records'',
       PList [PDict [(''Contacts'', PDict [(''records'', PList [a, b])])],
              PDict [(''other'', PInt 1)]])]"

definition hooks_ok :: hooks where
  "hooks_ok =
     \<lparr>named_temporary_file = Inr ''/tmp/tmp0'',
      new_salesforce_hook = (\<lambda>t conn out. None),
      sign_in = (\<lambda>t. None),
      get_available_fields = (\<lambda>t obj. Inr [''Id'', ''Name'']),
      make_query = (\<lambda>t q. Inr (nested_result contact_a contact_b)),
      get_object_from_salesforce =
        (\<lambda>t obj fl. Inr (PDict [(''records'', PList [contact_a, contact_b])])),
      write_object_to_file = (\<lambda>t recs name f c r. None),
      new_s3_hook = (\<lambda>t conn. None),
      load_file = (\<lambda>t name key bucket replace. None),
      s3_connection_close = (\<lambda>t. None)\<rparr>"

text \<open>A Salesforce that describes the object with no fields, and one that refuses the login.\<close>

definition hooks_no_fields :: hooks where
  "hooks_no_fields = hooks_ok\<lparr>get_available_fields := (\<lambda>t obj. Inr [])\<rparr>"

definition hooks_down :: hooks where
  "hooks_down = hooks_ok\<lparr>sign_in := (\<lambda>t. Some ''INVALID_LOGIN'')\<rparr>"

section \<open>Running the operator symbolically\<close>

text \<open>
  Each step followed by a continuation, as one case distinction on what the collaborator
  answered.
\<close>

declare special_query.simps [simp del]

lemma call_unit_then:
  "and_then (call_unit e f) k w =
     (case f (trace w) of
        Some msg \<Rightarrow> (Inl (External msg), log_event e w)
      | None \<Rightarrow> k () (log_event e w))"
  by (simp add: and_then_def call_unit_def split: option.split)

lemma call_value_then:
  "and_then (call_value e f) k w =
     (case f (trace w) of
        Inl msg \<Rightarrow> (Inl (External msg), log_event e w)
      | Inr v \<Rightarrow> k v (log_event e w))"
  by (simp add: and_then_def call_value_def split: sum.split)

lemma lift_then:
  "and_then (lift r) k w = (case r of Inl e \<Rightarrow> (Inl e, w) | Inr v \<Rightarrow> k v w)"
  by (simp add: and_then_def lift_def split: sum.split)

lemma resolve_fields_then:
  "and_then (resolve_fields h) k w =
     (if truthy_fields (fields' (self w)) then k () w
      else
        and_then
          (call_value (GetAvailableFields (object (self w)))
             (\<lambda>t. get_available_fields h t (object (self w))))
          (\<lambda>fs w'. k () (w'\<lparr>self := (self w')\<lparr>fields' := Some fs\<rparr>\<rparr>)) w)"
  by (simp add: and_then_def resolve_fields_def split: prod.split sum.split)

lemma log_request_then:
  "and_then log_request k w =
     (case fields' (self w) of None \<Rightarrow> (Inl TypeError, w) | Some fs \<Rightarrow> k () w)"
  by (simp add: and_then_def log_request_def split: option.split)

lemma special_query_then:
  "and_then (special_query h q rel) k w =
     (if truthy_str q then
        and_then (call_unit SignIn (sign_in h)) (\<lambda>_.
        and_then (call_value (MakeQuery (the q)) (\<lambda>t. make_query h t (the q))) (\<lambda>results.
        and_then (lift (flatten rel results)) k)) w
      else (Inl QueryIsNone, w))"
  by (cases q)
    (simp_all add: special_query.simps and_then_def lift_def split: prod.split sum.split)

lemma fetch_then:
  "and_then (fetch h) k w =
     (if truthy_str (query (self w)) then
        and_then (special_query h (query (self w)) (relationship_object (self w))) k w
      else
        and_then
          (call_value (GetObject (object (self w)) (fields' (self w)))
            (\<lambda>t. get_object_from_salesforce h t (object (self w)) (fields' (self w)))) k w)"
  by (simp add: and_then_def fetch_def)

lemma write_records_then:
  "and_then (write_records h name result) k w =
     and_then (lift (py_getitem result ''records'')) (\<lambda>records.
     and_then
       (call_unit
         (WriteObjectToFile records name (fmt (self w))
            (coerce_to_timestamp (self w)) (record_time_added (self w)))
         (\<lambda>t. write_object_to_file h t records name (fmt (self w))
            (coerce_to_timestamp (self w)) (record_time_added (self w)))) k) w"
  by (simp add: and_then_def write_records_def lift_def split: prod.split sum.split)

lemma tmp_flush_then: "and_then tmp_flush k w = k () (log_event TmpFlush w)"
  by (simp add: and_then_def tmp_flush_def)

lemmas then_simps = call_unit_then call_value_then lift_then resolve_fields_then
  log_request_then special_query_then fetch_then write_records_then tmp_flush_then

lemmas live_simps = live_def final_def wrote_def loaded_def log_event_def tmp_close_def

text \<open>Lines 152 to 171: the ways the write and the upload can end.\<close>

lemma tail_cases [case_names records_fail write_fail s3_fail load_fail close_fail success]:
  obtains
    e where "py_getitem res ''records'' = Inl e"
      "and_then (write_records h name res) (\<lambda>_. upload h name) (live op t) = (Inl e, live op t)"
  | recs msg where "py_getitem res ''records'' = Inr recs"
      "write_object_to_file h t recs name (fmt op) (coerce_to_timestamp op)
         (record_time_added op) = Some msg"
      "and_then (write_records h name res) (\<lambda>_. upload h name) (live op t) =
         (Inl (External msg), live op (t @ [wrote op name recs]))"
  | recs msg where "py_getitem res ''records'' = Inr recs"
      "write_object_to_file h t recs name (fmt op) (coerce_to_timestamp op)
         (record_time_added op) = None"
      "new_s3_hook h (t @ [wrote op name recs, TmpFlush]) (s3_conn_id op) = Some msg"
      "and_then (write_records h name res) (\<lambda>_. upload h name) (live op t) =
         (Inl (External msg),
          live op (t @ [wrote op name recs, TmpFlush, NewS3Hook (s3_conn_id op)]))"
  | recs msg where "py_getitem res ''records'' = Inr recs"
      "write_object_to_file h t recs name (fmt op) (coerce_to_timestamp op)
         (record_time_added op) = None"
      "new_s3_hook h (t @ [wrote op name recs, TmpFlush]) (s3_conn_id op) = None"
      "load_file h (t @ [wrote op name recs, TmpFlush, NewS3Hook (s3_conn_id op)])
         name (output op) (s3_bucket op) True = Some msg"
      "and_then (write_records h name res) (\<lambda>_. upload h name) (live op t) =
         (Inl (External msg),
          live op (t @ [wrote op name recs, TmpFlush, NewS3Hook (s3_conn_id op),
            loaded op name]))"
  | recs msg where "py_getitem res ''records'' = Inr recs"
      "write_object_to_file h t recs name (fmt op) (coerce_to_timestamp op)
         (record_time_added op) = None"
      "new_s3_hook h (t @ [wrote op name recs, TmpFlush]) (s3_conn_id op) = None"
      "load_file h (t @ [wrote op name recs, TmpFlush, NewS3Hook (s3_conn_id op)])
         name (output op) (s3_bucket op) True = None"
      "s3_connection_close h (t @ [wrote op name recs, TmpFlush, NewS3Hook (s3_conn_id op),
         loaded op name]) = Some msg"
      "and_then (write_records h name res) (\<lambda>_. upload h name) (live op t) =
         (Inl (External msg),
          live op (t @ [wrote op name recs, TmpFlush, NewS3Hook (s3_conn_id op),
            loaded op name, S3ConnectionClose]))"
  | recs where "py_getitem res ''records'' = Inr recs"
      "write_object_to_file h t recs name (fmt op) (coerce_to_timestamp op)
         (record_time_added op) = None"
      "new_s3_hook h (t @ [wrote op name recs, TmpFlush]) (s3_conn_id op) = None"
      "load_file h (t @ [wrote op name recs, TmpFlush, NewS3Hook (s3_conn_id op)])
         name (output op) (s3_bucket op) True = None"
      "s3_connection_close h (t @ [wrote op name recs, TmpFlush, NewS3Hook (s3_conn_id op),
         loaded op name]) = None"
      "and_then (write_records h name res) (\<lambda>_. upload h name) (live op t) =
         (Inr (),
          final op name (t @ [wrote op name recs, TmpFlush, NewS3Hook (s3_conn_id op),
            loaded op name, S3ConnectionClose]))"
proof (cases "py_getitem res ''records''")
  case (Inl e)
  then show ?thesis
    using that(1) by (simp add: then_simps)
next
  case recs: (Inr recs)
  show ?thesis
  proof (cases "write_object_to_file h t recs name (fmt op) (coerce_to_timestamp op)
         (record_time_added op)")
    case (Some msg)
    with recs show ?thesis
      using that(2) by (simp add: then_simps live_simps)
  next
    case wr: None
    show ?thesis
    proof (cases "new_s3_hook h (t @ [wrote op name recs, TmpFlush]) (s3_conn_id op)")
      case (Some msg)
      with recs wr show ?thesis
        using that(3) [of recs msg] by (simp add: then_simps live_simps upload_def)
    next
      case s3: None
      show ?thesis
      proof (cases "load_file h (t @ [wrote op name recs, TmpFlush, NewS3Hook (s3_conn_id op)])
         name (output op) (s3_bucket op) True")
        case (Some msg)
        with recs wr s3 show ?thesis
          using that(4) [of recs msg] by (simp add: then_simps live_simps upload_def)
      next
        case ld: None
        show ?thesis
        proof (cases "s3_connection_close h (t @ [wrote op name recs, TmpFlush,
           NewS3Hook (s3_conn_id op), loaded op name])")
          case (Some msg)
          with recs wr s3 ld show ?thesis
            using that(5) [of recs msg] by (simp add: then_simps live_simps upload_def)
        next
          case None
          with recs wr s3 ld show ?thesis
            using that(6) [of recs] by (simp add: then_simps live_simps upload_def)
        qed
      qed
    qed
  qed
qed

text \<open>Lines 140 to 147: the ways the fetch can end.\<close>

lemma fetch_cases [case_names sign_in_fail query_fail flatten_fail object_fail fetched]:
  obtains
    msg where "truthy_str (query op)" "sign_in h t = Some msg"
      "and_then (fetch h) k (live op t) = (Inl (External msg), live op (t @ [SignIn]))"
  | msg where "truthy_str (query op)" "sign_in h t = None"
      "make_query h (t @ [SignIn]) (the (query op)) = Inl msg"
      "and_then (fetch h) k (live op t) =
         (Inl (External msg), live op (t @ [SignIn, MakeQuery (the (query op))]))"
  | raw e where "truthy_str (query op)" "sign_in h t = None"
      "make_query h (t @ [SignIn]) (the (query op)) = Inr raw"
      "flatten (relationship_object op) raw = Inl e"
      "and_then (fetch h) k (live op t) =
         (Inl e, live op (t @ [SignIn, MakeQuery (the (query op))]))"
  | msg where "\<not> truthy_str (query op)"
      "get_object_from_salesforce h t (object op) (fields' op) = Inl msg"
      "and_then (fetch h) k (live op t) =
         (Inl (External msg), live op (t @ [GetObject (object op) (fields' op)]))"
  | res t' where "fetched h op (fields' op) t res t'"
      "and_then (fetch h) k (live op t) = k res (live op t')"
proof (cases "truthy_str (query op)")
  case q: True
  show ?thesis
  proof (cases "sign_in h t")
    case (Some msg)
    with q show ?thesis
      using that(1) by (simp add: then_simps live_simps)
  next
    case si: None
    show ?thesis
    proof (cases "make_query h (t @ [SignIn]) (the (query op))")
      case (Inl msg)
      with q si show ?thesis
        using that(2) by (simp add: then_simps live_simps)
    next
      case mq: (Inr raw)
      show ?thesis
      proof (cases "flatten (relationship_object op) raw")
        case (Inl e)
        with q si mq show ?thesis
          using that(3) by (simp add: then_simps live_simps)
      next
        case (Inr res)
        with q si mq show ?thesis
          using that(5) [of res "t @ [SignIn, MakeQuery (the (query op))]"]
          by (simp add: then_simps live_simps fetched_def)
      qed
    qed
  qed
next
  case q: False
  show ?thesis
  proof (cases "get_object_from_salesforce h t (object op) (fields' op)")
    case (Inl msg)
    with q show ?thesis
      using that(4) by (simp add: then_simps live_simps)
  next
    case (Inr res)
    with q show ?thesis
      using that(5) [of res "t @ [GetObject (object op) (fields' op)]"]
      by (simp add: then_simps live_simps fetched_def)
  qed
qed

text \<open>Lines 114 to 138, and then every way \<open>execute\<close> can end.\<close>

lemma resolved_Some: "resolved h op name fl t \<Longrightarrow> \<exists>fs. fl = Some fs"
  by (cases "fields' op") (auto simp: resolved_def split: if_splits sum.splits)

lemma head_cases [case_names no_tmp hook_fail sign_in_fail fields_fail resolved]:
  obtains
    msg where "named_temporary_file h = Inl msg"
      "execute h op =
         (Inl (External msg), \<lparr>self = op, trace = [], tmp_exists = False, tmp_closed = False\<rparr>)"
  | name msg where "named_temporary_file h = Inr name"
      "new_salesforce_hook h [TmpCreate name] (sf_conn_id op) name = Some msg"
      "execute h op =
         (Inl (External msg),
          final op name [TmpCreate name, NewSalesforceHook (sf_conn_id op) name])"
  | name msg where "named_temporary_file h = Inr name"
      "new_salesforce_hook h [TmpCreate name] (sf_conn_id op) name = None"
      "sign_in h [TmpCreate name, NewSalesforceHook (sf_conn_id op) name] = Some msg"
      "execute h op =
         (Inl (External msg),
          final op name [TmpCreate name, NewSalesforceHook (sf_conn_id op) name, SignIn])"
  | name msg where "named_temporary_file h = Inr name"
      "new_salesforce_hook h [TmpCreate name] (sf_conn_id op) name = None"
      "sign_in h [TmpCreate name, NewSalesforceHook (sf_conn_id op) name] = None"
      "\<not> truthy_fields (fields' op)"
      "get_available_fields h
         [TmpCreate name, NewSalesforceHook (sf_conn_id op) name, SignIn] (object op) = Inl msg"
      "execute h op =
         (Inl (External msg),
          final op name [TmpCreate name, NewSalesforceHook (sf_conn_id op) name, SignIn,
            GetAvailableFields (object op)])"
  | name fl t where "resolved h op name fl t"
      "execute h op =
         (case and_then (fetch h)
                 (\<lambda>result. and_then (write_records h name result) (\<lambda>_. upload h name))
                 (live (op\<lparr>fields' := fl\<rparr>) t) of
            (r, w) \<Rightarrow> (r, tmp_close name w))"
proof (cases "named_temporary_file h")
  case (Inl msg)
  then show ?thesis
    using that(1) by (simp add: execute_def)
next
  case nm: (Inr name)
  show ?thesis
  proof (cases "new_salesforce_hook h [TmpCreate name] (sf_conn_id op) name")
    case (Some msg)
    with nm show ?thesis
      using that(2) by (simp add: execute_def execute_body_def call_unit_then live_simps)
  next
    case hk: None
    show ?thesis
    proof (cases "sign_in h [TmpCreate name, NewSalesforceHook (sf_conn_id op) name]")
      case (Some msg)
      with nm hk show ?thesis
        using that(3) by (simp add: execute_def execute_body_def call_unit_then live_simps)
    next
      case si: None
      show ?thesis
      proof (cases "truthy_fields (fields' op)")
        case tf: True
        then obtain fs where fs: "fields' op = Some fs"
          by (cases "fields' op") auto
        have "resolved h op name (fields' op)
                [TmpCreate name, NewSalesforceHook (sf_conn_id op) name, SignIn]"
          using nm hk si tf by (simp add: resolved_def)
        moreover have "execute h op =
           (case and_then (fetch h)
                 (\<lambda>result. and_then (write_records h name result) (\<lambda>_. upload h name))
                 (live (op\<lparr>fields' := fields' op\<rparr>)
                    [TmpCreate name, NewSalesforceHook (sf_conn_id op) name, SignIn]) of
              (r, w) \<Rightarrow> (r, tmp_close name w))"
        proof -
          have "execute h op =
             (case and_then (fetch h)
                   (\<lambda>result. and_then (write_records h name result) (\<lambda>_. upload h name))
                   (live op [TmpCreate name, NewSalesforceHook (sf_conn_id op) name, SignIn]) of
                (r, w) \<Rightarrow> (r, tmp_close name w))"
            using nm hk si tf fs
            by (simp add: execute_def execute_body_def call_unit_then resolve_fields_then
                log_request_then live_def log_event_def)
          moreover have "op\<lparr>fields' := fields' op\<rparr> = op"
            by simp
          ultimately show ?thesis
            by simp
        qed
        ultimately show ?thesis
          by (rule that(5))
      next
        case tf: False
        show ?thesis
        proof (cases "get_available_fields h
           [TmpCreate name, NewSalesforceHook (sf_conn_id op) name, SignIn] (object op)")
          case (Inl msg)
          with nm hk si tf show ?thesis
            using that(4)
            by (simp add: execute_def execute_body_def call_unit_then call_value_then
                resolve_fields_then live_simps)
        next
          case gaf: (Inr fs)
          have "resolved h op name (Some fs)
                  [TmpCreate name, NewSalesforceHook (sf_conn_id op) name, SignIn,
                   GetAvailableFields (object op)]"
            using nm hk si tf gaf by (simp add: resolved_def)
          moreover have "execute h op =
             (case and_then (fetch h)
                   (\<lambda>result. and_then (write_records h name result) (\<lambda>_. upload h name))
                   (live (op\<lparr>fields' := Some fs\<rparr>)
                      [TmpCreate name, NewSalesforceHook (sf_conn_id op) name, SignIn,
                       GetAvailableFields (object op)]) of
                (r, w) \<Rightarrow> (r, tmp_close name w))"
            using nm hk si tf gaf
            by (simp add: execute_def execute_body_def call_unit_then call_value_then
                resolve_fields_then log_request_then live_def log_event_def)
          ultimately show ?thesis
            by (rule that(5))
        qed
      qed
    qed
  qed
qed


lemma execute_cases [case_names no_tmp hook_fail sign_in_fail fields_fail sign_in2_fail
    query_fail flatten_fail object_fail records_fail write_fail s3_fail load_fail close_fail
    success]:
  obtains
    msg where "named_temporary_file h = Inl msg"
      "execute h op =
         (Inl (External msg), \<lparr>self = op, trace = [], tmp_exists = False, tmp_closed = False\<rparr>)"
  | name msg where "named_temporary_file h = Inr name"
      "new_salesforce_hook h [TmpCreate name] (sf_conn_id op) name = Some msg"
      "execute h op =
         (Inl (External msg),
          final op name [TmpCreate name, NewSalesforceHook (sf_conn_id op) name])"
  | name msg where "named_temporary_file h = Inr name"
      "new_salesforce_hook h [TmpCreate name] (sf_conn_id op) name = None"
      "sign_in h [TmpCreate name, NewSalesforceHook (sf_conn_id op) name] = Some msg"
      "execute h op =
         (Inl (External msg),
          final op name [TmpCreate name, NewSalesforceHook (sf_conn_id op) name, SignIn])"
  | name msg where "named_temporary_file h = Inr name"
      "new_salesforce_hook h [TmpCreate name] (sf_conn_id op) name = None"
      "sign_in h [TmpCreate name, NewSalesforceHook (sf_conn_id op) name] = None"
      "\<not> truthy_fields (fields' op)"
      "get_available_fields h
         [TmpCreate name, NewSalesforceHook (sf_conn_id op) name, SignIn] (object op) = Inl msg"
      "execute h op =
         (Inl (External msg),
          final op name [TmpCreate name, NewSalesforceHook (sf_conn_id op) name, SignIn,
            GetAvailableFields (object op)])"
  | name fl t msg where "resolved h op name fl t" "truthy_str (query op)"
      "sign_in h t = Some msg"
      "execute h op = (Inl (External msg), final (op\<lparr>fields' := fl\<rparr>) name (t @ [SignIn]))"
  | name fl t msg where "resolved h op name fl t" "truthy_str (query op)"
      "sign_in h t = None" "make_query h (t @ [SignIn]) (the (query op)) = Inl msg"
      "execute h op =
         (Inl (External msg),
          final (op\<lparr>fields' := fl\<rparr>) name (t @ [SignIn, MakeQuery (the (query op))]))"
  | name fl t raw e where "resolved h op name fl t" "truthy_str (query op)"
      "sign_in h t = None" "make_query h (t @ [SignIn]) (the (query op)) = Inr raw"
      "flatten (relationship_object op) raw = Inl e"
      "execute h op =
         (Inl e, final (op\<lparr>fields' := fl\<rparr>) name (t @ [SignIn, MakeQuery (the (query op))]))"
  | name fl t msg where "resolved h op name fl t" "\<not> truthy_str (query op)"
      "get_object_from_salesforce h t (object op) fl = Inl msg"
      "execute h op =
         (Inl (External msg),
          final (op\<lparr>fields' := fl\<rparr>) name (t @ [GetObject (object op) fl]))"
  | name fl t res t' e where "resolved h op name fl t" "fetched h op fl t res t'"
      "py_getitem res ''records'' = Inl e"
      "execute h op = (Inl e, final (op\<lparr>fields' := fl\<rparr>) name t')"
  | name fl t res t' recs msg where "resolved h op name fl t" "fetched h op fl t res t'"
      "py_getitem res ''records'' = Inr recs"
      "write_object_to_file h t' recs name (fmt op) (coerce_to_timestamp op)
         (record_time_added op) = Some msg"
      "execute h op =
         (Inl (External msg), final (op\<lparr>fields' := fl\<rparr>) name (t' @ [wrote op name recs]))"
  | name fl t res t' recs msg where "resolved h op name fl t" "fetched h op fl t res t'"
      "py_getitem res ''records'' = Inr recs"
      "write_object_to_file h t' recs name (fmt op) (coerce_to_timestamp op)
         (record_time_added op) = None"
      "new_s3_hook h (t' @ [wrote op name recs, TmpFlush]) (s3_conn_id op) = Some msg"
      "execute h op =
         (Inl (External msg),
          final (op\<lparr>fields' := fl\<rparr>) name
            (t' @ [wrote op name recs, TmpFlush, NewS3Hook (s3_conn_id op)]))"
  | name fl t res t' recs msg where "resolved h op name fl t" "fetched h op fl t res t'"
      "py_getitem res ''records'' = Inr recs"
      "write_object_to_file h t' recs name (fmt op) (coerce_to_timestamp op)
         (record_time_added op) = None"
      "new_s3_hook h (t' @ [wrote op name recs, TmpFlush]) (s3_conn_id op) = None"
      "load_file h (t' @ [wrote op name recs, TmpFlush, NewS3Hook (s3_conn_id op)])
         name (output op) (s3_bucket op) True = Some msg"
      "execute h op =
         (Inl (External msg),
          final (op\<lparr>fields' := fl\<rparr>) name
            (t' @ [wrote op name recs, TmpFlush, NewS3Hook (s3_conn_id op), loaded op name]))"
  | name fl t res t' recs msg where "resolved h op name fl t" "fetched h op fl t res t'"
      "py_getitem res ''records'' = Inr recs"
      "write_object_to_file h t' recs name (fmt op) (coerce_to_timestamp op)
         (record_time_added op) = None"
      "new_s3_hook h (t' @ [wrote op name recs, TmpFlush]) (s3_conn_id op) = None"
      "load_file h (t' @ [wrote op name recs, TmpFlush, NewS3Hook (s3_conn_id op)])
         name (output op) (s3_bucket op) True = None"
      "s3_connection_close h (t' @ [wrote op name recs, TmpFlush, NewS3Hook (s3_conn_id op),
         loaded op name]) = Some msg"
      "execute h op =
         (Inl (External msg),
          final (op\<lparr>fields' := fl\<rparr>) name
            (t' @ [wrote op name recs, TmpFlush, NewS3Hook (s3_conn_id op), loaded op name,
              S3ConnectionClose]))"
  | name fl t res t' recs where "resolved h op name fl t" "fetched h op fl t res t'"
      "py_getitem res ''records'' = Inr recs"
      "write_object_to_file h t' recs name (fmt op) (coerce_to_timestamp op)
         (record_time_added op) = None"
      "new_s3_hook h (t' @ [wrote op name recs, TmpFlush]) (s3_conn_id op) = None"
      "load_file h (t' @ [wrote op name recs, TmpFlush, NewS3Hook (s3_conn_id op)])
         name (output op) (s3_bucket op) True = None"
      "s3_connection_close h (t' @ [wrote op name recs, TmpFlush, NewS3Hook (s3_conn_id op),
         loaded op name]) = None"
      "execute h op =
         (Inr (),
          final (op\<lparr>fields' := fl\<rparr>) name
            (t' @ [wrote op name recs, TmpFlush, NewS3Hook (s3_conn_id op), loaded op name,
              S3ConnectionClose]))"
proof (cases rule: head_cases [of h op])
  case (no_tmp msg)
  then show ?thesis by (rule that(1))
next
  case (hook_fail name msg)
  then show ?thesis by (rule that(2))
next
  case (sign_in_fail name msg)
  then show ?thesis by (rule that(3))
next
  case (fields_fail name msg)
  then show ?thesis by (rule that(4))
next
  case head: (resolved name fl t)
  note r = head(1) and ex = head(2)
  show ?thesis
  proof (cases rule: fetch_cases [where h = h and op = "op\<lparr>fields' := fl\<rparr>" and t = t
        and k = "\<lambda>result. and_then (write_records h name result) (\<lambda>_. upload h name)"])
    case (sign_in_fail msg)
    then show ?thesis
      using r ex that(5) [of name fl t msg] by (simp add: live_simps)
  next
    case (query_fail msg)
    then show ?thesis
      using r ex that(6) [of name fl t msg] by (simp add: live_simps)
  next
    case (flatten_fail raw e)
    then show ?thesis
      using r ex that(7) [of name fl t raw e] by (simp add: live_simps)
  next
    case (object_fail msg)
    then show ?thesis
      using r ex that(8) [of name fl t msg] by (simp add: live_simps)
  next
    case ft: (fetched res t')
    have f: "fetched h op fl t res t'"
      using ft(1) by (simp add: fetched_def cong: if_cong sum.case_cong)
    show ?thesis
    proof (cases rule: tail_cases [where h = h and name = name and res = res
          and op = "op\<lparr>fields' := fl\<rparr>" and t = t'])
      case (records_fail e)
      then show ?thesis
        using r f ex ft(2) that(9) [of name fl t res t' e] by (simp add: live_simps)
    next
      case (write_fail recs msg)
      then show ?thesis
        using r f ex ft(2) that(10) [of name fl t res t' recs msg] by (simp add: live_simps)
    next
      case (s3_fail recs msg)
      then show ?thesis
        using r f ex ft(2) that(11) [of name fl t res t' recs msg] by (simp add: live_simps)
    next
      case (load_fail recs msg)
      then show ?thesis
        using r f ex ft(2) that(12) [of name fl t res t' recs msg] by (simp add: live_simps)
    next
      case (close_fail recs msg)
      then show ?thesis
        using r f ex ft(2) that(13) [of name fl t res t' recs msg] by (simp add: live_simps)
    next
      case (success recs)
      then show ?thesis
        using r f ex ft(2) that(14) [of name fl t res t' recs] by (simp add: live_simps)
    qed
  qed
qed

lemma resolved_facts:
  "resolved h op name fl t \<Longrightarrow>
     named_temporary_file h = Inr name \<and>
     t = [TmpCreate name, NewSalesforceHook (sf_conn_id op) name, SignIn] @
         (if truthy_fields (fields' op) then [] else [GetAvailableFields (object op)])"
  by (auto simp: resolved_def split: if_splits sum.splits)

lemma fetched_trace:
  "fetched h op fl t res t' \<Longrightarrow>
     t' = t @ (if truthy_str (query op) then [SignIn, MakeQuery (the (query op))]
               else [GetObject (object op) fl])"
  by (auto simp: fetched_def split: if_splits)

lemmas run_simps = execute_def execute_body_def upload_def then_simps live_simps
  hooks_ok_def hooks_no_fields_def hooks_down_def op_account_def op_contacts_def
  nested_result_def contact_a_def contact_b_def flatten_def seq_def

text \<open>What the states on the way imply, and what every execution does.\<close>

lemma fetched_events:
  "resolved h op name fl t \<Longrightarrow> fetched h op fl t res t' \<Longrightarrow>
     set t' \<subseteq> {TmpCreate name, NewSalesforceHook (sf_conn_id op) name, SignIn,
       GetAvailableFields (object op), MakeQuery (the (query op)), GetObject (object op) fl}"
  by (auto dest!: resolved_facts fetched_trace split: if_splits)


lemma resolved_head:
  "resolved h op name fl t \<Longrightarrow>
     named_temporary_file h = Inr name \<and>
     new_salesforce_hook h [TmpCreate name] (sf_conn_id op) name = None \<and>
     sign_in h [TmpCreate name, NewSalesforceHook (sf_conn_id op) name] = None \<and>
     (truthy_fields (fields' op) \<or>
      get_available_fields h
        [TmpCreate name, NewSalesforceHook (sf_conn_id op) name, SignIn] (object op) =
        Inr (the fl))"
  by (auto simp: resolved_def split: if_splits sum.splits)



lemma resolved_sign_in:
  "resolved h op name fl t \<Longrightarrow> SignIn \<in> set t \<and> (\<forall>q. MakeQuery q \<notin> set t)"
  by (auto dest!: resolved_facts split: if_splits)

lemma second_sign_in_shape:
  "SignIn \<in> set t \<Longrightarrow>
     \<exists>pre. (\<exists>post'. t @ SignIn # MakeQuery q # post = pre @ SignIn # MakeQuery q # post') \<and>
       SignIn \<in> set pre"
  by blast

lemma query_after_second_sign_in:
  "MakeQuery q \<in> set (trace (snd (execute h op))) \<Longrightarrow>
     \<exists>pre post. trace (snd (execute h op)) = pre @ [SignIn, MakeQuery q] @ post \<and>
       SignIn \<in> set pre"
  by (cases rule: execute_cases [of h op])
    (auto simp: final_def wrote_def loaded_def
      dest!: resolved_sign_in fetched_trace split: if_splits intro!: second_sign_in_shape)

lemma two_sign_ins:
  assumes r: "resolved h op name fl t" and q: "truthy_str (query op)"
  shows "filter (\<lambda>e. e = SignIn) (trace (snd (execute h op))) = [SignIn, SignIn]"
  using resolved_head [OF r] q
  by (cases rule: execute_cases [of h op])
    (auto simp: final_def wrote_def loaded_def
      dest!: resolved_facts fetched_trace split: if_splits)











lemma listed_fields_used:
  assumes "\<not> truthy_fields (fields' op)"
    and "named_temporary_file h = Inr name"
    and "new_salesforce_hook h [TmpCreate name] (sf_conn_id op) name = None"
    and "sign_in h [TmpCreate name, NewSalesforceHook (sf_conn_id op) name] = None"
  shows "GetAvailableFields (object op) \<in> set (trace (snd (execute h op))) \<and>
         (get_available_fields h
            [TmpCreate name, NewSalesforceHook (sf_conn_id op) name, SignIn] (object op) =
            Inr fs \<longrightarrow>
          fields' (self (snd (execute h op))) = Some fs \<and>
          (\<forall>obj fl. GetObject obj fl \<in> set (trace (snd (execute h op))) \<longrightarrow> fl = Some fs))"
  using assms
  by (cases rule: execute_cases [of h op])
    (auto simp: final_def wrote_def loaded_def resolved_def
      dest!: fetched_trace split: if_splits sum.splits)

lemma explicit_fields_kept:
  assumes "truthy_fields (fields' op)"
  shows "fields' (self (snd (execute h op))) = fields' op \<and>
         (\<forall>obj. GetAvailableFields obj \<notin> set (trace (snd (execute h op)))) \<and>
         (\<forall>obj fl. GetObject obj fl \<in> set (trace (snd (execute h op))) \<longrightarrow> fl = fields' op)"
  using assms
  by (cases rule: execute_cases [of h op])
    (auto simp: final_def wrote_def loaded_def resolved_def
      dest!: fetched_trace split: if_splits sum.splits)

section \<open>The properties of the specification\<close>




text \<open>
  C2, as amended. \<open>execute\<close> leaves every attribute of the configuration but \<open>fields\<close>
  as it was; \<open>fields\<close> is left as it was when an explicit non-empty list was configured,
  and when it changes, its new value is the list that the hook's \<open>get_available_fields\<close>
  returned for the configured object.
\<close>

theorem only_fields_is_written:
  "sf_conn_id (self (snd (execute h op))) = sf_conn_id op \<and>
   output (self (snd (execute h op))) = output op \<and>
   s3_conn_id (self (snd (execute h op))) = s3_conn_id op \<and>
   s3_bucket (self (snd (execute h op))) = s3_bucket op \<and>
   object (self (snd (execute h op))) = object op \<and>
   fmt (self (snd (execute h op))) = fmt op \<and>
   query (self (snd (execute h op))) = query op \<and>
   relationship_object (self (snd (execute h op))) = relationship_object op \<and>
   record_time_added (self (snd (execute h op))) = record_time_added op \<and>
   coerce_to_timestamp (self (snd (execute h op))) = coerce_to_timestamp op \<and>
   (truthy_fields (fields' op) \<longrightarrow> fields' (self (snd (execute h op))) = fields' op) \<and>
   (fields' (self (snd (execute h op))) \<noteq> fields' op \<longrightarrow>
      (\<exists>name fs.
         named_temporary_file h = Inr name \<and>
         get_available_fields h
           [TmpCreate name, NewSalesforceHook (sf_conn_id op) name, SignIn] (object op) =
           Inr fs \<and>
         fields' (self (snd (execute h op))) = Some fs))"
  by (cases rule: execute_cases [of h op])
    (auto simp: final_def resolved_def split: if_splits sum.splits)

theorem only_fields_is_written_witness:
  "fields' (self (snd (execute hooks_ok op_account))) \<noteq> fields' op_account \<and>
   (\<exists>name fs.
      named_temporary_file hooks_ok = Inr name \<and>
      get_available_fields hooks_ok
        [TmpCreate name, NewSalesforceHook (sf_conn_id op_account) name, SignIn]
        (object op_account) = Inr fs \<and>
      fields' (self (snd (execute hooks_ok op_account))) = Some fs) \<and>
   truthy_fields (fields' op_contacts) \<and>
   fields' (self (snd (execute hooks_ok op_contacts))) = fields' op_contacts"
proof -
  have "fields' (self (snd (execute hooks_ok op_account))) \<noteq> fields' op_account"
    by (simp add: run_simps)
  moreover have "truthy_fields (fields' op_contacts)"
    by (simp add: op_contacts_def)
  ultimately show ?thesis
    using only_fields_is_written [of hooks_ok op_account]
      only_fields_is_written [of hooks_ok op_contacts]
    by blast
qed

text \<open>C2 as stated fails: line 133 stores the hook's field list in \<open>self.fields\<close>.\<close>

theorem fields_is_written_counterexample:
  "fields' op_account = None \<and>
   fields' (self (snd (execute hooks_ok op_account))) = Some [''Id'', ''Name'']"
  by (simp add: run_simps)

text \<open>
  C3, as amended. When an explicit non-empty field list is configured, or the hook's
  \<open>get_available_fields\<close> never returns an empty list, the field list is non-empty when the
  fetch runs: a named-object fetch receives exactly \<open>self.fields\<close>, which is non-empty, and
  so is \<open>self.fields\<close> when a raw query is made.
\<close>

theorem fetch_fields_nonempty:
  assumes "truthy_fields (fields' op) \<or>
           (\<forall>t obj fs. get_available_fields h t obj = Inr fs \<longrightarrow> fs \<noteq> [])"
  shows "(\<forall>obj fl. GetObject obj fl \<in> set (trace (snd (execute h op))) \<longrightarrow>
            fl = fields' (self (snd (execute h op))) \<and> truthy_fields fl) \<and>
         (\<forall>q. MakeQuery q \<in> set (trace (snd (execute h op))) \<longrightarrow>
            truthy_fields (fields' (self (snd (execute h op)))))"
  using assms
  by (cases rule: execute_cases [of h op])
    (auto simp: final_def wrote_def loaded_def resolved_def
      dest!: fetched_trace split: if_splits sum.splits)

theorem fetch_fields_nonempty_witness:
  "GetObject ''Account'' (Some [''Id'', ''Name''])
     \<in> set (trace (snd (execute hooks_ok op_account))) \<and>
   truthy_fields (fields' (self (snd (execute hooks_ok op_account))))"
proof -
  have g: "\<forall>t obj fs. get_available_fields hooks_ok t obj = Inr fs \<longrightarrow> fs \<noteq> []"
    by (simp add: hooks_ok_def)
  have e: "GetObject ''Account'' (Some [''Id'', ''Name''])
     \<in> set (trace (snd (execute hooks_ok op_account)))"
    by (simp add: run_simps)
  have "\<forall>obj fl. GetObject obj fl \<in> set (trace (snd (execute hooks_ok op_account))) \<longrightarrow>
            fl = fields' (self (snd (execute hooks_ok op_account))) \<and> truthy_fields fl"
    using g fetch_fields_nonempty [of op_account hooks_ok] by simp
  with e have "truthy_fields (fields' (self (snd (execute hooks_ok op_account))))"
    by metis
  with e show ?thesis
    by simp
qed

text \<open>
  C3 as stated fails: the code does not look at what the hook returns, so an empty answer
  is stored and the object is fetched with the empty list.
\<close>

theorem empty_field_set_counterexample:
  "fields' (self (snd (execute hooks_no_fields op_account))) = Some [] \<and>
   GetObject ''Account'' (Some []) \<in> set (trace (snd (execute hooks_no_fields op_account)))"
  by (simp add: run_simps)

text \<open>
  C4. With no explicit field list (\<open>None\<close>, or an empty one), once the execution gets to
  line 133 the hook is asked for the fields of the configured object, and when it returns
  \<open>fs\<close> the resolved list is exactly \<open>fs\<close>: \<open>self.fields\<close> holds it and a named-object
  fetch receives it. With an explicit non-empty list, the resolved list is exactly that
  list, and \<open>get_available_fields\<close> is never called.
\<close>

theorem resolved_field_list:
  "(\<not> truthy_fields (fields' op) \<longrightarrow>
      named_temporary_file h = Inr name \<longrightarrow>
      new_salesforce_hook h [TmpCreate name] (sf_conn_id op) name = None \<longrightarrow>
      sign_in h [TmpCreate name, NewSalesforceHook (sf_conn_id op) name] = None \<longrightarrow>
      get_available_fields h
        [TmpCreate name, NewSalesforceHook (sf_conn_id op) name, SignIn] (object op) = Inr fs \<longrightarrow>
      fields' (self (snd (execute h op))) = Some fs \<and>
      GetAvailableFields (object op) \<in> set (trace (snd (execute h op))) \<and>
      (\<forall>obj fl. GetObject obj fl \<in> set (trace (snd (execute h op))) \<longrightarrow> fl = Some fs)) \<and>
   (truthy_fields (fields' op) \<longrightarrow>
      fields' (self (snd (execute h op))) = fields' op \<and>
      (\<forall>obj. GetAvailableFields obj \<notin> set (trace (snd (execute h op)))) \<and>
      (\<forall>obj fl. GetObject obj fl \<in> set (trace (snd (execute h op))) \<longrightarrow> fl = fields' op))"
  using listed_fields_used [of op h name fs] explicit_fields_kept [of op h]
  by blast

theorem resolved_field_list_witness:
  "\<not> truthy_fields (fields' op_account) \<and>
   fields' (self (snd (execute hooks_ok op_account))) = Some [''Id'', ''Name''] \<and>
   GetAvailableFields (object op_account) \<in> set (trace (snd (execute hooks_ok op_account))) \<and>
   truthy_fields (fields' op_contacts) \<and>
   fields' (self (snd (execute hooks_ok op_contacts))) = fields' op_contacts \<and>
   (\<forall>obj. GetAvailableFields obj \<notin> set (trace (snd (execute hooks_ok op_contacts))))"
proof -
  have "\<not> truthy_fields (fields' op_account)"
    and "named_temporary_file hooks_ok = Inr ''/tmp/tmp0''"
    and "new_salesforce_hook hooks_ok [TmpCreate ''/tmp/tmp0''] (sf_conn_id op_account)
           ''/tmp/tmp0'' = None"
    and "sign_in hooks_ok
           [TmpCreate ''/tmp/tmp0'', NewSalesforceHook (sf_conn_id op_account) ''/tmp/tmp0''] =
         None"
    and "get_available_fields hooks_ok
           [TmpCreate ''/tmp/tmp0'', NewSalesforceHook (sf_conn_id op_account) ''/tmp/tmp0'',
            SignIn] (object op_account) = Inr [''Id'', ''Name'']"
    and "truthy_fields (fields' op_contacts)"
    by (simp_all add: hooks_ok_def op_account_def op_contacts_def)
  then show ?thesis
    using resolved_field_list [of op_account hooks_ok "''/tmp/tmp0''" "[''Id'', ''Name'']"]
      resolved_field_list [of op_contacts hooks_ok]
    by blast
qed

text \<open>
  C5. A custom query whose result is \<open>{records: [{Contacts: {records: [a, b]}}, {other: 1}]}\<close>,
  with the relationship object \<open>Contacts\<close> configured, returns the records \<open>[a, b]\<close>: the
  nested collection in order, the record without the relationship dropped.
\<close>

theorem special_query_flattens_contacts:
  assumes "q \<noteq> []"
    and "sign_in h (trace w) = None"
    and "make_query h (trace w @ [SignIn]) q = Inr (nested_result a b)"
  shows "special_query h (Some q) (Some ''Contacts'') w =
           (Inr (PDict [(''records'', PList [a, b])]),
            w\<lparr>trace := trace w @ [SignIn, MakeQuery q]\<rparr>)"
  using assms
  by (simp add: special_query.simps and_then_def call_unit_def call_value_def lift_def
      log_event_def flatten_def seq_def nested_result_def)

theorem special_query_flattens_contacts_witness:
  "''SELECT Id, (SELECT Id FROM Contacts) FROM Account'' \<noteq> [] \<and>
   sign_in hooks_ok (trace (live op_contacts [])) = None \<and>
   make_query hooks_ok (trace (live op_contacts []) @ [SignIn])
     ''SELECT Id, (SELECT Id FROM Contacts) FROM Account'' =
     Inr (nested_result contact_a contact_b) \<and>
   fst (special_query hooks_ok (Some ''SELECT Id, (SELECT Id FROM Contacts) FROM Account'')
          (Some ''Contacts'') (live op_contacts [])) =
     Inr (PDict [(''records'', PList [contact_a, contact_b])])"
proof -
  have 1: "''SELECT Id, (SELECT Id FROM Contacts) FROM Account'' \<noteq> []"
    by simp
  have 2: "sign_in hooks_ok (trace (live op_contacts [])) = None"
    by (simp add: hooks_ok_def)
  have 3: "make_query hooks_ok (trace (live op_contacts []) @ [SignIn])
     ''SELECT Id, (SELECT Id FROM Contacts) FROM Account'' =
     Inr (nested_result contact_a contact_b)"
    by (simp add: hooks_ok_def)
  show ?thesis
    using 1 2 3 special_query_flattens_contacts [OF 1 2 3]
    by simp
qed

text \<open>
  C6. In every execution that returns normally, the trace ends with the write of the
  records, the flush of the temporary file, the construction of the S3 hook, one
  \<open>load_file\<close> of the temporary file to the configured key and bucket with \<open>replace=True\<close>,
  the close of the S3 connection and the removal of the file; there is no other upload,
  and no flush or removal before the write.
\<close>

theorem upload_once_on_success:
  assumes "fst (execute h op) = Inr ()"
  shows "\<exists>name pre recs.
           named_temporary_file h = Inr name \<and>
           trace (snd (execute h op)) =
             pre @ [WriteObjectToFile recs name (fmt op) (coerce_to_timestamp op)
                      (record_time_added op),
                    TmpFlush, NewS3Hook (s3_conn_id op),
                    LoadFile name (output op) (s3_bucket op) True,
                    S3ConnectionClose, TmpUnlink name] \<and>
           filter is_load_file pre = [] \<and> TmpFlush \<notin> set pre \<and>
           TmpUnlink name \<notin> set pre"
proof (cases rule: execute_cases [of h op])
  case (success name fl t res t' recs)
  have "named_temporary_file h = Inr name"
    using success(1) by (simp add: resolved_def)
  moreover have "filter is_load_file t' = [] \<and> TmpFlush \<notin> set t' \<and> TmpUnlink name \<notin> set t'"
    using fetched_events [OF success(1,2)] by (auto simp: filter_empty_conv)
  ultimately show ?thesis
    using success(8)
    by (intro exI [of _ name] exI [of _ t'] exI [of _ recs])
      (simp add: final_def wrote_def loaded_def)
qed (use assms in simp_all)

theorem upload_once_on_success_witness:
  "fst (execute hooks_ok op_contacts) = Inr () \<and>
   (\<exists>name pre recs.
      named_temporary_file hooks_ok = Inr name \<and>
      trace (snd (execute hooks_ok op_contacts)) =
        pre @ [WriteObjectToFile recs name (fmt op_contacts) (coerce_to_timestamp op_contacts)
                 (record_time_added op_contacts),
               TmpFlush, NewS3Hook (s3_conn_id op_contacts),
               LoadFile name (output op_contacts) (s3_bucket op_contacts) True,
               S3ConnectionClose, TmpUnlink name] \<and>
      filter is_load_file pre = [] \<and> TmpFlush \<notin> set pre \<and> TmpUnlink name \<notin> set pre)"
proof -
  have ok: "fst (execute hooks_ok op_contacts) = Inr ()"
    by (simp add: run_simps)
  from upload_once_on_success [OF ok] ok show ?thesis
    by simp
qed

text \<open>
  C7. For every execution, the temporary file is gone when \<open>execute\<close> returns or raises:
  whatever the collaborators answer, the file does not exist in the final world, and when
  it was created, its creation is the first event, its removal is the last one, and it is
  removed exactly once.
\<close>

theorem temporary_file_removed:
  "\<not> tmp_exists (snd (execute h op)) \<and>
   (case named_temporary_file h of
      Inl msg \<Rightarrow> trace (snd (execute h op)) = []
    | Inr name \<Rightarrow>
        hd (trace (snd (execute h op))) = TmpCreate name \<and>
        last (trace (snd (execute h op))) = TmpUnlink name \<and>
        filter (\<lambda>e. e = TmpUnlink name) (trace (snd (execute h op))) = [TmpUnlink name])"
  by (cases rule: execute_cases [of h op])
    (auto simp: final_def wrote_def loaded_def dest!: resolved_facts fetched_trace)

theorem temporary_file_removed_witness:
  "\<not> tmp_exists (snd (execute hooks_ok op_account)) \<and>
   \<not> tmp_exists (snd (execute hooks_down op_contacts)) \<and>
   trace (snd (execute hooks_down op_contacts)) =
     [TmpCreate ''/tmp/tmp0'', NewSalesforceHook ''salesforce'' ''/tmp/tmp0'', SignIn,
      TmpUnlink ''/tmp/tmp0'']"
  using temporary_file_removed [of hooks_ok op_account]
    temporary_file_removed [of hooks_down op_contacts]
  by (simp add: run_simps)



text \<open>
  C9. Every raw query is immediately preceded by a sign-in that is not the first one of
  the execution; and every execution that gets to line 140 with a query configured calls
  the sign-in exactly twice.
\<close>

theorem custom_query_signs_in_again:
  "(\<forall>q. MakeQuery q \<in> set (trace (snd (execute h op))) \<longrightarrow>
      (\<exists>pre post. trace (snd (execute h op)) = pre @ [SignIn, MakeQuery q] @ post \<and>
         SignIn \<in> set pre)) \<and>
   (resolved h op name fl t \<longrightarrow> truthy_str (query op) \<longrightarrow>
      filter (\<lambda>e. e = SignIn) (trace (snd (execute h op))) = [SignIn, SignIn])"
  using query_after_second_sign_in [of _ h op] two_sign_ins [of h op name fl t]
  by blast

theorem custom_query_signs_in_again_witness:
  "MakeQuery ''SELECT Id, (SELECT Id FROM Contacts) FROM Account''
     \<in> set (trace (snd (execute hooks_ok op_contacts))) \<and>
   (\<exists>pre post. trace (snd (execute hooks_ok op_contacts)) =
      pre @ [SignIn, MakeQuery ''SELECT Id, (SELECT Id FROM Contacts) FROM Account''] @ post \<and>
      SignIn \<in> set pre) \<and>
   resolved hooks_ok op_contacts ''/tmp/tmp0'' (Some [''Id''])
     [TmpCreate ''/tmp/tmp0'', NewSalesforceHook ''salesforce'' ''/tmp/tmp0'', SignIn] \<and>
   truthy_str (query op_contacts) \<and>
   filter (\<lambda>e. e = SignIn) (trace (snd (execute hooks_ok op_contacts))) = [SignIn, SignIn]"
proof -
  have m: "MakeQuery ''SELECT Id, (SELECT Id FROM Contacts) FROM Account''
     \<in> set (trace (snd (execute hooks_ok op_contacts)))"
    by (simp add: run_simps)
  have r: "resolved hooks_ok op_contacts ''/tmp/tmp0'' (Some [''Id''])
     [TmpCreate ''/tmp/tmp0'', NewSalesforceHook ''salesforce'' ''/tmp/tmp0'', SignIn]"
    by (simp add: resolved_def hooks_ok_def op_contacts_def op_account_def)
  have q: "truthy_str (query op_contacts)"
    by (simp add: op_contacts_def)
  show ?thesis
    using m r q
      custom_query_signs_in_again [of hooks_ok op_contacts "''/tmp/tmp0''" "Some [''Id'']"
        "[TmpCreate ''/tmp/tmp0'', NewSalesforceHook ''salesforce'' ''/tmp/tmp0'', SignIn]"]
    by blast
qed



end
